theory Spec2Isabelle
  imports Complex_Main "HOL-Library.AList"
begin

section \<open>JavaScript values as the frontend sees them\<close>

text \<open>
  The frontend (\<^verbatim>\<open>App.jsx\<close>, the version with the campaign and the single-domain
  mode) keeps its state in React hooks and talks to the backend through
  \<^verbatim>\<open>axios.post\<close>. What comes back is parsed JSON, so the model carries JavaScript
  values: \<^verbatim>\<open>undefined\<close>, \<^verbatim>\<open>null\<close>, booleans, numbers, strings, arrays and
  plain objects. A number is a finite rational (every finite double is one) or one of
  the infinities (\<^verbatim>\<open>JSON.parse("1e999")\<close>); NaN never comes out of JSON and is the
  value \<open>None\<close> of a numeric conversion. Strings are lists of \<open>char\<close>, read as the
  code units U+0000 to U+00FF. An object is an association list; the first binding of
  a key is the property.
\<close>

datatype jsnum = Fin rat | PosInfinity | NegInfinity

datatype jsval =
    JUndefined
  | JNull
  | JBool bool
  | JNum jsnum
  | JStr string
  | JArr "jsval list"
  | JObj "(string \<times> jsval) list"

text \<open>
  What a \<^verbatim>\<open>try\<close> block can catch here: a \<^verbatim>\<open>TypeError\<close> of the language
  (a property of \<^verbatim>\<open>null\<close>, a loop over a value that is not iterable, a call of
  something that is not a function), or the rejection of \<^verbatim>\<open>axios.post\<close>, which
  carries \<^verbatim>\<open>err.response.data\<close> when the server answered (status outside 2xx)
  and nothing when it did not.
\<close>

datatype js_error = TypeError | AxiosError "jsval option"

definition nullish :: "jsval \<Rightarrow> bool" where
  "nullish v = (v = JUndefined \<or> v = JNull)"

fun truthy :: "jsval \<Rightarrow> bool" where
  "truthy JUndefined = False"
| "truthy JNull = False"
| "truthy (JBool b) = b"
| "truthy (JNum n) = (n \<noteq> Fin 0)"
| "truthy (JStr s) = (s \<noteq> [])"
| "truthy (JArr xs) = True"
| "truthy (JObj kvs) = True"

text \<open>
  \<^verbatim>\<open>v[k]\<close> for a value that is neither \<^verbatim>\<open>undefined\<close> nor \<^verbatim>\<open>null\<close>, at the
  property names the frontend reads (none of them is on a prototype but
  \<^verbatim>\<open>length\<close>).
\<close>

fun js_prop :: "jsval \<Rightarrow> string \<Rightarrow> jsval" where
  "js_prop (JObj kvs) k = (case map_of kvs k of Some v \<Rightarrow> v | None \<Rightarrow> JUndefined)"
| "js_prop (JArr xs) k = (if k = ''length'' then JNum (Fin (of_nat (length xs))) else JUndefined)"
| "js_prop (JStr s) k = (if k = ''length'' then JNum (Fin (of_nat (length s))) else JUndefined)"
| "js_prop v k = JUndefined"

definition get_prop :: "jsval \<Rightarrow> string \<Rightarrow> js_error + jsval" where
  \<comment> \<open>\<^verbatim>\<open>v.k\<close>: a TypeError on \<^verbatim>\<open>undefined\<close> and \<^verbatim>\<open>null\<close>.\<close>
  "get_prop v k = (if nullish v then Inl TypeError else Inr (js_prop v k))"

definition opt_chain :: "jsval \<Rightarrow> string \<Rightarrow> jsval" where
  \<comment> \<open>\<^verbatim>\<open>v?.k\<close>\<close>
  "opt_chain v k = (if nullish v then JUndefined else js_prop v k)"

definition js_or :: "jsval \<Rightarrow> jsval \<Rightarrow> jsval" where
  \<comment> \<open>\<^verbatim>\<open>a || b\<close>\<close>
  "js_or a b = (if truthy a then a else b)"

fun js_iterate :: "jsval \<Rightarrow> js_error + jsval list" where
  \<comment> \<open>the values a \<^verbatim>\<open>for (const x of v)\<close> loop binds, or the TypeError of a
      value that is not iterable\<close>
  "js_iterate (JArr xs) = Inr xs"
| "js_iterate (JStr s) = Inr (map (\<lambda>c. JStr [c]) s)"
| "js_iterate v = Inl TypeError"

fun js_array_map :: "jsval \<Rightarrow> js_error + jsval list" where
  \<comment> \<open>the elements \<^verbatim>\<open>v.map(f)\<close> visits; only an array has the method\<close>
  "js_array_map (JArr xs) = Inr xs"
| "js_array_map v = Inl TypeError"

text \<open>
  \<^verbatim>\<open>x >= k\<close> and \<^verbatim>\<open>x > k\<close> against a number literal convert \<open>x\<close> to a
  number first. The conversion of strings, arrays and objects (ECMAScript's
  \<^verbatim>\<open>ToNumber\<close>, a built-in of the language) is the parameter \<open>tn\<close>; \<open>None\<close> is NaN,
  for which every comparison is false.
\<close>

fun to_number :: "(jsval \<Rightarrow> jsnum option) \<Rightarrow> jsval \<Rightarrow> jsnum option" where
  "to_number tn JUndefined = None"
| "to_number tn JNull = Some (Fin 0)"
| "to_number tn (JBool b) = Some (Fin (if b then 1 else 0))"
| "to_number tn (JNum n) = Some n"
| "to_number tn v = tn v"

fun num_ge :: "jsnum \<Rightarrow> rat \<Rightarrow> bool" where
  "num_ge (Fin r) k = (k \<le> r)"
| "num_ge PosInfinity k = True"
| "num_ge NegInfinity k = False"

fun num_gt :: "jsnum \<Rightarrow> rat \<Rightarrow> bool" where
  "num_gt (Fin r) k = (k < r)"
| "num_gt PosInfinity k = True"
| "num_gt NegInfinity k = False"

definition js_ge :: "(jsval \<Rightarrow> jsnum option) \<Rightarrow> jsval \<Rightarrow> rat \<Rightarrow> bool" where
  "js_ge tn v k = (case to_number tn v of None \<Rightarrow> False | Some n \<Rightarrow> num_ge n k)"

definition js_gt :: "(jsval \<Rightarrow> jsnum option) \<Rightarrow> jsval \<Rightarrow> rat \<Rightarrow> bool" where
  "js_gt tn v k = (case to_number tn v of None \<Rightarrow> False | Some n \<Rightarrow> num_gt n k)"

definition is_whitespace :: "char \<Rightarrow> bool" where
  \<comment> \<open>the white space and line terminators of \<^verbatim>\<open>String.prototype.trim\<close> below
      U+0100: TAB, LF, VT, FF, CR, SPACE and NBSP\<close>
  "is_whitespace c = (of_char c \<in> {9, 10, 11, 12, 13, 32, 160 :: nat})"

definition trim :: "string \<Rightarrow> string" where
  "trim s = rev (dropWhile is_whitespace (rev (dropWhile is_whitespace s)))"

section \<open>The component's state\<close>

definition SERVICE_CATEGORIES :: "string list" where
  "SERVICE_CATEGORIES =
     [''Application Development'', ''AI & Data Analytics'', ''Cloud & DevOps'',
      ''Digital Transformation'']"

definition API_BASE_URL :: string where
  "API_BASE_URL = ''http://localhost:8000''"

text \<open>
  The hooks of \<^verbatim>\<open>App\<close>. \<open>result\<close> and \<open>error\<close> are \<open>JNull\<close> until set; \<open>emails\<close>
  and \<open>emailLoading\<close> are objects keyed by the index of a lead.
\<close>

record app_state =
  mode :: string
  domain :: string
  serviceCategory :: string
  loading :: bool
  result :: jsval
  error :: jsval
  trace :: "jsval list"
  emails :: "nat \<rightharpoonup> jsval"
  emailLoading :: "nat \<rightharpoonup> bool"

definition initial_state :: app_state where
  "initial_state =
     \<lparr>mode = ''campaign'', domain = '''', serviceCategory = ''Application Development'',
      loading = False, result = JNull, error = JNull, trace = [],
      emails = Map.empty, emailLoading = Map.empty\<rparr>"

text \<open>
  A request is the URL and the object given to \<^verbatim>\<open>axios.post\<close>. The backend is the
  function \<open>post\<close> from requests to what the promise settles with: \<open>Resolved d\<close> with
  \<^verbatim>\<open>res.data = d\<close>, or \<open>Rejected r\<close> with \<^verbatim>\<open>err.response?.data\<close> when there is a
  response.
\<close>

datatype http_request = Post string jsval

datatype http_response = Resolved jsval | Rejected "jsval option"

text \<open>
  What a handler does: the component's successive states as its updates are applied (in
  order; the last is the state the handler leaves), the requests it sent and the alerts
  it raised. A handler runs from its start to its end on the state it finds; the two
  handlers write different hooks, and each write either sets a hook or updates it from
  its latest value.
\<close>

record outcome =
  states :: "app_state list"
  requests :: "http_request list"
  alerts :: "string list"

definition final :: "outcome \<Rightarrow> app_state" where
  "final out = last (states out)"

section \<open>Submitting the form\<close>

fun digits :: "nat \<Rightarrow> string" where
  \<comment> \<open>the decimal numeral of an array index, as a property key\<close>
  "digits n =
     (if n < 10 then [char_of (48 + n)]
      else digits (n div 10) @ [char_of (48 + n mod 10)])"

declare digits.simps [simp del]

fun own_props :: "jsval \<Rightarrow> (string \<times> jsval) list" where
  \<comment> \<open>the own enumerable properties an object spread \<^verbatim>\<open>{...v}\<close> copies\<close>
  "own_props (JObj kvs) = kvs"
| "own_props (JArr xs) = zip (map digits [0..<length xs]) xs"
| "own_props (JStr s) = zip (map digits [0..<length s]) (map (\<lambda>c. JStr [c]) s)"
| "own_props v = []"

fun append_steps :: "app_state \<Rightarrow> jsval list \<Rightarrow> app_state list" where
  \<comment> \<open>the loop \<^verbatim>\<open>for (const step of ...) { setTrace(prev => [...prev, step]); await ... }\<close>:
      the state after each round\<close>
  "append_steps s [] = []"
| "append_steps s (step # rest) =
     (let s' = s\<lparr>trace := trace s @ [step]\<rparr> in s' # append_steps s' rest)"

definition submit_request :: "app_state \<Rightarrow> http_request" where
  "submit_request st =
     (if mode st = ''campaign'' then
        Post (API_BASE_URL @ ''/analyze'')
          (JObj [(''service_category'', JStr (serviceCategory st))])
      else
        Post (API_BASE_URL @ ''/deep_analyze'')
          (JObj [(''domain'', JStr (domain st)),
                 (''service_category'', JStr (serviceCategory st))]))"

definition submit_reset :: "app_state \<Rightarrow> app_state" where
  \<comment> \<open>the four updates before the request: \<^verbatim>\<open>setLoading(true); setError(null);
      setResult(null); setTrace([...])\<close>\<close>
  "submit_reset st =
     st\<lparr>loading := True, error := JNull, result := JNull,
        trace := [JStr ''Initializing autonomous intelligence engine...'']\<rparr>"

fun submit_try :: "http_response \<Rightarrow> string \<Rightarrow> app_state \<Rightarrow> app_state list \<times> js_error option" where
  \<comment> \<open>the \<^verbatim>\<open>try\<close> block after the request was sent, from the state \<open>s\<close>: the states
      it goes through and what it throws\<close>
  "submit_try (Rejected r) m s = ([], Some (AxiosError r))"
| "submit_try (Resolved d) m s =
     (case get_prop d ''agent_trace'' of
        Inl e \<Rightarrow> ([], Some e)
      | Inr t \<Rightarrow>
          (case js_iterate t of
             Inl e \<Rightarrow> ([], Some e)
           | Inr steps \<Rightarrow>
               (let ss = append_steps s steps
                in (ss @ [(last (s # ss))\<lparr>result := JObj (AList.update ''mode'' (JStr m) (own_props d))\<rparr>],
                    None))))"

fun err_detail :: "js_error \<Rightarrow> jsval" where
  \<comment> \<open>\<^verbatim>\<open>err.response?.data?.detail\<close>\<close>
  "err_detail (AxiosError (Some d)) = opt_chain d ''detail''"
| "err_detail e = JUndefined"

definition handleSubmit :: "(http_request \<Rightarrow> http_response) \<Rightarrow> app_state \<Rightarrow> outcome" where
  "handleSubmit post st =
     (if mode st = ''single'' \<and> \<not> truthy (JStr (trim (domain st))) then
        \<lparr>states = [st\<lparr>error := JStr ''Please enter a valid domain (e.g., example.com)''\<rparr>],
         requests = [], alerts = []\<rparr>
      else
        (let s1 = submit_reset st;
             req = submit_request st;
             (ss, thrown) = submit_try (post req) (mode st) s1;
             caught =
               (case thrown of
                  None \<Rightarrow> ss
                | Some e \<Rightarrow>
                    ss @ [(last (s1 # ss))\<lparr>error :=
                      js_or (err_detail e)
                        (JStr ''Failed to execute request. Is the backend running?'')\<rparr>])
         in \<lparr>states = s1 # caught @ [(last (s1 # caught))\<lparr>loading := False\<rparr>],
             requests = [req], alerts = []\<rparr>))"

section \<open>Drafting an email for a lead\<close>

fun email_try :: "(http_request \<Rightarrow> http_response) \<Rightarrow> jsval \<Rightarrow> string \<Rightarrow> http_request list \<times> (js_error + jsval)" where
  \<comment> \<open>the \<^verbatim>\<open>try\<close> block of \<^verbatim>\<open>handleGenerateEmail\<close>: the requests sent, and the
      \<^verbatim>\<open>res.data.email_body\<close> it stores or what it throws\<close>
  "email_try post lead category =
     (case get_prop lead ''name'' of
        Inl e \<Rightarrow> ([], Inl e)
      | Inr company \<Rightarrow>
          (let req = Post (API_BASE_URL @ ''/generate_email'')
                       (JObj [(''company_name'', company),
                              (''domain'', js_prop lead ''domain''),
                              (''why_we_help'', js_prop lead ''why_we_help''),
                              (''service_category'', JStr category)])
           in (case post req of
                 Rejected r \<Rightarrow> ([req], Inl (AxiosError r))
               | Resolved d \<Rightarrow> ([req], get_prop d ''email_body''))))"

definition handleGenerateEmail :: "(http_request \<Rightarrow> http_response) \<Rightarrow> jsval \<Rightarrow> nat \<Rightarrow> app_state \<Rightarrow> outcome" where
  "handleGenerateEmail post lead index st =
     (let s1 = st\<lparr>emailLoading := (emailLoading st)(index \<mapsto> True)\<rparr>;
          (reqs, r) = email_try post lead (serviceCategory st);
          s2 = (case r of Inl e \<Rightarrow> s1 | Inr b \<Rightarrow> s1\<lparr>emails := (emails s1)(index \<mapsto> b)\<rparr>)
      in \<lparr>states = [s1, s2, s2\<lparr>emailLoading := (emailLoading s2)(index \<mapsto> False)\<rparr>],
          requests = reqs,
          alerts = (case r of Inl e \<Rightarrow> [''Failed to generate email. Is the backend running?'']
                    | Inr b \<Rightarrow> [])\<rparr>)"

section \<open>Rendering the results\<close>

fun collect :: "('a \<Rightarrow> js_error + 'b) \<Rightarrow> 'a list \<Rightarrow> js_error + 'b list" where
  \<comment> \<open>the callback of a \<^verbatim>\<open>map\<close> on each element in turn; the first throw ends it\<close>
  "collect f [] = Inr []"
| "collect f (x # xs) =
     (case f x of
        Inl e \<Rightarrow> Inl e
      | Inr y \<Rightarrow> (case collect f xs of Inl e \<Rightarrow> Inl e | Inr ys \<Rightarrow> Inr (y # ys)))"

record lead_card =
  card_name :: jsval
  card_domain :: jsval
  card_why :: jsval
  button_disabled :: bool
  button_label :: string
  drafted_email :: "jsval option"

datatype campaign_view = NoLeadsNotice | LeadCards "lead_card list"

fun lead_cards :: "campaign_view \<Rightarrow> lead_card list" where
  "lead_cards NoLeadsNotice = []"
| "lead_cards (LeadCards cs) = cs"

definition emails_at :: "app_state \<Rightarrow> nat \<Rightarrow> jsval" where
  \<comment> \<open>\<^verbatim>\<open>emails[idx]\<close>\<close>
  "emails_at st idx = (case emails st idx of None \<Rightarrow> JUndefined | Some v \<Rightarrow> v)"

definition render_lead :: "app_state \<Rightarrow> nat \<times> jsval \<Rightarrow> js_error + lead_card" where
  "render_lead st p =
     (case p of (idx, lead) \<Rightarrow>
        (case get_prop lead ''name'' of
           Inl e \<Rightarrow> Inl e
         | Inr n \<Rightarrow>
             Inr \<lparr>card_name = n,
                  card_domain = js_prop lead ''domain'',
                  card_why = js_prop lead ''why_we_help'',
                  button_disabled = (emailLoading st idx = Some True),
                  button_label =
                    (if truthy (emails_at st idx) then ''Regenerate Email'' else ''Draft Email''),
                  drafted_email =
                    (if truthy (emails_at st idx) then Some (emails_at st idx) else None)\<rparr>))"

definition renderCampaignResults :: "app_state \<Rightarrow> js_error + campaign_view" where
  "renderCampaignResults st =
     (case get_prop (result st) ''leads'' of
        Inl e \<Rightarrow> Inl e
      | Inr leads \<Rightarrow>
          if \<not> truthy leads \<or> js_prop leads ''length'' = JNum (Fin 0) then Inr NoLeadsNotice
          else
            (case js_array_map leads of
               Inl e \<Rightarrow> Inl e
             | Inr xs \<Rightarrow>
                 (case collect (render_lead st) (enumerate 0 xs) of
                    Inl e \<Rightarrow> Inl e
                  | Inr cs \<Rightarrow> Inr (LeadCards cs))))"

text \<open>
  The deep-analysis report: the verdict banner (\<open>isYes\<close> chooses the green border and
  the check mark, otherwise the red border and the cross), the colour of the score, the
  technology tags, the pain points and whether the subject line is shown.
\<close>

record deep_view =
  isYes :: bool
  scoreColor :: string
  tech_tags :: "jsval list"
  pain_points :: "jsval list"
  none_identified :: bool
  subject_shown :: bool

definition renderSingleDomainResults :: "(jsval \<Rightarrow> jsnum option) \<Rightarrow> app_state \<Rightarrow> js_error + deep_view option" where
  "renderSingleDomainResults tn st =
     (case get_prop (result st) ''company_dossier'' of
        Inl e \<Rightarrow> Inl e
      | Inr company_dossier \<Rightarrow>
          if \<not> truthy company_dossier then Inr None
          else
            (let strategic_analysis = js_prop (result st) ''strategic_analysis'';
                 verdict = js_prop (result st) ''verdict'';
                 outreach_strategy = js_prop (result st) ''outreach_strategy'';
                 stack = js_prop company_dossier ''estimated_tech_stack'';
                 pains = opt_chain strategic_analysis ''pain_points'';
                 subject = opt_chain outreach_strategy ''subject_line''
             in (case (if js_gt tn (opt_chain stack ''length'') 0 then js_array_map stack else Inr []) of
                   Inl e \<Rightarrow> Inl e
                 | Inr tags \<Rightarrow>
                     (case (if nullish pains then Inr [] else js_array_map pains) of
                        Inl e \<Rightarrow> Inl e
                      | Inr ps \<Rightarrow>
                          Inr (Some
                            \<lparr>isYes = (opt_chain verdict ''recommendation'' = JStr ''YES''),
                             scoreColor =
                               (if js_ge tn (opt_chain verdict ''score'') 60 then ''text-green-400''
                                else if js_ge tn (opt_chain verdict ''score'') 35 then ''text-yellow-400''
                                else ''text-red-400''),
                             tech_tags = tags,
                             pain_points = ps,
                             none_identified =
                               (\<not> truthy pains \<or> js_prop pains ''length'' = JNum (Fin 0)),
                             subject_shown = (truthy subject \<and> subject \<noteq> JStr ''N/A'')\<rparr>)))))"

datatype results_view = Awaiting | Campaign campaign_view | Single "deep_view option"

definition render_results :: "(jsval \<Rightarrow> jsnum option) \<Rightarrow> app_state \<Rightarrow> js_error + results_view" where
  \<comment> \<open>the results column of \<^verbatim>\<open>App\<close>\<close>
  "render_results tn st =
     (if \<not> truthy (result st) then Inr Awaiting
      else if js_prop (result st) ''mode'' = JStr ''campaign'' then
        (case renderCampaignResults st of Inl e \<Rightarrow> Inl e | Inr v \<Rightarrow> Inr (Campaign v))
      else
        (case renderSingleDomainResults tn st of Inl e \<Rightarrow> Inl e | Inr v \<Rightarrow> Inr (Single v)))"

text \<open>
  The trace panel, shown when the trace is not empty or the mode is the campaign:
  \<^verbatim>\<open>trace.map((step, i) => <motion.div key={i}>... {step}</motion.div>)\<close>. Each
  step is mounted as a child of its line. React mounts strings and numbers as text,
  nothing for booleans, \<^verbatim>\<open>null\<close> and \<^verbatim>\<open>undefined\<close>, and an array child by child;
  a plain object is no valid child: React throws on it and the page unmounts.
\<close>

fun react_child :: "jsval \<Rightarrow> bool" where
  "react_child (JObj kvs) = False"
| "react_child (JArr xs) = (\<forall>x \<in> set xs. react_child x)"
| "react_child v = True"

datatype react_error = ObjectAsChild jsval

definition trace_panel :: "app_state \<Rightarrow> react_error + jsval list option" where
  "trace_panel st =
     (if 0 < length (trace st) \<or> mode st = ''campaign'' then
        (case find (\<lambda>step. \<not> react_child step) (trace st) of
           Some step \<Rightarrow> Inl (ObjectAsChild step)
         | None \<Rightarrow> Inr (Some (trace st)))
      else Inr None)"

fun typeof_string :: "jsval \<Rightarrow> bool" where
  \<comment> \<open>\<^verbatim>\<open>typeof v === 'string'\<close>\<close>
  "typeof_string (JStr s) = True"
| "typeof_string v = False"

section \<open>The states the interface can reach\<close>

text \<open>
  From the initial hooks, by the handlers of the page: the two mode buttons, the domain
  field, the category \<^verbatim>\<open>select\<close> (whose options are \<^verbatim>\<open>SERVICE_CATEGORIES.map(...)\<close>),
  the form and the email button of a card, with any backend.
\<close>

inductive reachable :: "app_state \<Rightarrow> bool" where
  start: "reachable initial_state"
| set_mode: "reachable st \<Longrightarrow> m = ''campaign'' \<or> m = ''single'' \<Longrightarrow> reachable (st\<lparr>mode := m\<rparr>)"
| set_domain: "reachable st \<Longrightarrow> reachable (st\<lparr>domain := d\<rparr>)"
| set_category:
    "reachable st \<Longrightarrow> c \<in> set SERVICE_CATEGORIES \<Longrightarrow> reachable (st\<lparr>serviceCategory := c\<rparr>)"
| submit: "reachable st \<Longrightarrow> st' \<in> set (states (handleSubmit post st)) \<Longrightarrow> reachable st'"
| generate_email:
    "reachable st \<Longrightarrow> st' \<in> set (states (handleGenerateEmail post lead index st)) \<Longrightarrow> reachable st'"

text \<open>
  Two fixed parameters for concrete runs: a backend that settles every request alike,
  and a numeric conversion for which every string, array and object is NaN.
\<close>

definition backend_always :: "http_response \<Rightarrow> http_request \<Rightarrow> http_response" where
  "backend_always r req = r"

definition to_nan :: "jsval \<Rightarrow> jsnum option" where
  "to_nan v = None"

section \<open>The backend pipeline\<close>

text \<open>
  The backend (\<^verbatim>\<open>fast_app.py\<close>, \<^verbatim>\<open>agents.py\<close>) is not among the sources at hand;
  the frontend only calls it. Its data and its stages are written down here from the
  specification, with the external search provider and the language model as
  parameters.
\<close>

text \<open>
  Modelled from the spec: a hit of the search provider, \<^verbatim>\<open>{ url, title, snippet }\<close>;
  the backend that reads it is missing from the sources.
\<close>

record search_hit =
  hit_url :: string
  hit_title :: string
  hit_snippet :: string

text \<open>
  Modelled from the spec: a Candidate, \<^verbatim>\<open>{ name, domain, snippet }\<close> with a
  normalised domain, as ResultNormalizer (missing from the sources) produces it.
\<close>

record candidate =
  cand_name :: string
  cand_domain :: string
  cand_snippet :: string

text \<open>
  Modelled from the spec: a Lead, \<^verbatim>\<open>{ name, domain, why_we_help }\<close>, the output of
  LeadSynthesizer (missing from the sources) for a campaign run.
\<close>

record lead =
  lead_name :: string
  lead_domain :: string
  lead_why_we_help :: string

text \<open>
  Modelled from the spec: the error kinds of the orchestrator (missing from the sources)
  that a campaign run can end with before the synthesis.
\<close>

datatype pipeline_error = InvalidInput | ExternalProviderError

text \<open>
  Modelled from the spec: the configuration of EnterpriseGuard, which is missing from the
  sources. The blocklist of exact domains, the match against known enterprise name
  fragments (regex or substring, on the domain), and the optional heuristic on the
  snippet.
\<close>

record guard_config =
  blocklist :: "string list"
  fragment_match :: "string \<Rightarrow> bool"
  size_signal :: "string \<Rightarrow> bool"

text \<open>
  Modelled from the spec: ResultNormalizer, which is missing from the sources. The hits
  are capped at the top 20; \<open>domain_of\<close> strips a URL to its registrable domain
  (\<open>None\<close> for a malformed URL, which is skipped); without a title the leftmost
  label of the domain is the provisional name; a hit whose domain was seen already is
  dropped, the first occurrence wins and the order is kept.
\<close>

fun normalize_hits :: "(string \<Rightarrow> string option) \<Rightarrow> string list \<Rightarrow> search_hit list \<Rightarrow> candidate list" where
  "normalize_hits domain_of seen [] = []"
| "normalize_hits domain_of seen (h # hs) =
     (case domain_of (hit_url h) of
        None \<Rightarrow> normalize_hits domain_of seen hs
      | Some d \<Rightarrow>
          if d \<in> set seen then normalize_hits domain_of seen hs
          else \<lparr>cand_name =
                  (if hit_title h = [] then takeWhile (\<lambda>c. c \<noteq> CHR ''.'') d else hit_title h),
                cand_domain = d, cand_snippet = hit_snippet h\<rparr>
                 # normalize_hits domain_of (d # seen) hs)"

text \<open>
  Modelled from the spec: the entry point of ResultNormalizer, missing from the sources.
\<close>

definition result_normalizer :: "(string \<Rightarrow> string option) \<Rightarrow> search_hit list \<Rightarrow> candidate list" where
  "result_normalizer domain_of hits = normalize_hits domain_of [] (take 20 hits)"

text \<open>
  Modelled from the spec: the matching policy of EnterpriseGuard, missing from the
  sources. The rules in their order, the first match decides: the exact domain in the
  blocklist, a known enterprise fragment, the size signal of the snippet.
\<close>

definition is_enterprise :: "guard_config \<Rightarrow> candidate \<Rightarrow> bool" where
  "is_enterprise cfg c =
     (if cand_domain c \<in> set (blocklist cfg) then True
      else if fragment_match cfg (cand_domain c) then True
      else size_signal cfg (cand_snippet c))"

text \<open>
  Modelled from the spec: EnterpriseGuard, missing from the sources. It keeps the order,
  drops the matches and changes no candidate.
\<close>

definition enterprise_guard :: "guard_config \<Rightarrow> candidate list \<Rightarrow> candidate list" where
  "enterprise_guard cfg cs = filter (\<lambda>c. \<not> is_enterprise cfg c) cs"

text \<open>
  Modelled from the spec: LeadSynthesizer in campaign mode, missing from the sources.
  The candidates are capped at the top \<open>k\<close>; \<open>llm\<close> is the language model with the
  parsing of its answer (\<open>None\<close> when the answer is still malformed after the one retry,
  which gives the empty result); a lead whose domain is not the domain of a candidate
  sent to the model is discarded.
\<close>

definition lead_synthesizer :: "(candidate list \<Rightarrow> string \<Rightarrow> lead list option) \<Rightarrow> nat \<Rightarrow> string \<Rightarrow> candidate list \<Rightarrow> lead list" where
  "lead_synthesizer llm k category cs =
     (let sent = take k cs
      in case llm sent category of
           None \<Rightarrow> []
         | Some ls \<Rightarrow> filter (\<lambda>l. lead_domain l \<in> set (map cand_domain sent)) ls)"

text \<open>
  Modelled from the spec: the candidates the orchestrator hands to LeadSynthesizer,
  missing from the sources: the hits of the search, normalised, then filtered by
  EnterpriseGuard.
\<close>

definition synthesizer_input :: "guard_config \<Rightarrow> (string \<Rightarrow> string option) \<Rightarrow> search_hit list \<Rightarrow> candidate list" where
  "synthesizer_input cfg domain_of hits = enterprise_guard cfg (result_normalizer domain_of hits)"

text \<open>
  Modelled from the spec: PipelineOrchestrator for a campaign request, missing from the
  sources. An unknown category is a validation error before any external call;
  \<open>search\<close> is the search provider on the query QueryBuilder made (\<open>None\<close> when the
  call fails or times out); with no candidate left LeadSynthesizer is not called.
\<close>

definition run_campaign :: "guard_config \<Rightarrow> (string \<Rightarrow> string) \<Rightarrow> (string \<Rightarrow> search_hit list option) \<Rightarrow> (string \<Rightarrow> string option) \<Rightarrow> (candidate list \<Rightarrow> string \<Rightarrow> lead list option) \<Rightarrow> nat \<Rightarrow> string \<Rightarrow> pipeline_error + lead list" where
  "run_campaign cfg build_query search domain_of llm k category =
     (if category \<notin> set SERVICE_CATEGORIES then Inl InvalidInput
      else
        (case search (build_query category) of
           None \<Rightarrow> Inl ExternalProviderError
         | Some hits \<Rightarrow>
             (let cs = synthesizer_input cfg domain_of hits
              in if cs = [] then Inr [] else Inr (lead_synthesizer llm k category cs))))"

text \<open>
  Modelled from the spec: the inputs of a sample campaign run, after its Scenario A. The
  search returns a page of the blocklisted \<^verbatim>\<open>bigcorp.com\<close> and a page of
  \<^verbatim>\<open>tinydevops.io\<close>, and the language model answers with a lead for each of the
  two domains, whatever it was sent.
\<close>

definition scenario_guard :: guard_config where
  "scenario_guard =
     \<lparr>blocklist = [''bigcorp.com''], fragment_match = (\<lambda>d. False), size_signal = (\<lambda>s. False)\<rparr>"

definition scenario_search :: "string \<Rightarrow> search_hit list option" where
  "scenario_search q =
     Some [\<lparr>hit_url = ''https://www.bigcorp.com/careers'', hit_title = ''BigCorp'',
             hit_snippet = ''BigCorp is hiring cloud engineers''\<rparr>,
           \<lparr>hit_url = ''https://tinydevops.io/about'', hit_title = ''Tiny DevOps'',
             hit_snippet = ''small team, we need help with our cluster''\<rparr>]"

definition scenario_domain_of :: "string \<Rightarrow> string option" where
  "scenario_domain_of u =
     (if u = ''https://www.bigcorp.com/careers'' then Some ''bigcorp.com''
      else if u = ''https://tinydevops.io/about'' then Some ''tinydevops.io''
      else None)"

definition scenario_llm :: "candidate list \<Rightarrow> string \<Rightarrow> lead list option" where
  "scenario_llm cs category =
     Some [\<lparr>lead_name = ''BigCorp'', lead_domain = ''bigcorp.com'',
             lead_why_we_help = ''They are hiring.''\<rparr>,
           \<lparr>lead_name = ''Tiny DevOps'', lead_domain = ''tinydevops.io'',
             lead_why_we_help = ''A small team that runs its own cluster.''\<rparr>]"

section \<open>Facts about the building blocks\<close>

lemma dropWhile_all_iff: "(\<forall>x\<in>set (dropWhile P s). P x) \<longleftrightarrow> (\<forall>x\<in>set s. P x)"
proof
  assume a: "\<forall>x\<in>set (dropWhile P s). P x"
  have "dropWhile P s = []"
  proof (rule ccontr)
    assume "dropWhile P s \<noteq> []"
    then have "\<not> P (hd (dropWhile P s))" and "hd (dropWhile P s) \<in> set (dropWhile P s)"
      by (simp_all add: hd_dropWhile)
    with a show False by blast
  qed
  then show "\<forall>x\<in>set s. P x" by (simp add: dropWhile_eq_Nil_conv)
next
  assume "\<forall>x\<in>set s. P x"
  then show "\<forall>x\<in>set (dropWhile P s). P x" by (blast dest: set_dropWhileD)
qed

lemma trim_blank_iff: "trim s = [] \<longleftrightarrow> list_all is_whitespace s"
  by (simp add: trim_def list_all_iff dropWhile_eq_Nil_conv dropWhile_all_iff)

lemma append_steps_length: "length (append_steps s xs) = length xs"
  by (induction xs arbitrary: s) (auto simp: Let_def)

lemma append_steps_last: "last (s # append_steps s xs) = s\<lparr>trace := trace s @ xs\<rparr>"
  by (induction xs arbitrary: s) (auto simp: Let_def)

lemma append_steps_nth:
  "n < length xs \<Longrightarrow> append_steps s xs ! n = s\<lparr>trace := trace s @ take (Suc n) xs\<rparr>"
proof (induction xs arbitrary: s n)
  case Nil
  then show ?case by simp
next
  case (Cons x xs)
  show ?case
  proof (cases n)
    case 0
    then show ?thesis by (simp add: Let_def)
  next
    case (Suc m)
    with Cons.prems have "m < length xs" by simp
    from Cons.IH [OF this] Suc show ?thesis by (simp add: Let_def)
  qed
qed

lemma append_steps_mem:
  "s' \<in> set (append_steps s xs) \<Longrightarrow> \<exists>n < length xs. s' = s\<lparr>trace := trace s @ take (Suc n) xs\<rparr>"
  by (metis append_steps_length append_steps_nth in_set_conv_nth)

lemma get_prop_iterable_obj:
  "get_prop d k = Inr t \<Longrightarrow> js_iterate t = Inr steps \<Longrightarrow> k \<noteq> ''length'' \<Longrightarrow> \<exists>kvs. d = JObj kvs"
  by (cases d) (auto simp: get_prop_def nullish_def split: if_splits)

lemma last_cons_snoc: "last (x # ys @ [z]) = z"
  by simp

subsection \<open>The three ways \<^verbatim>\<open>handleSubmit\<close> can go\<close>

lemma submit_try_cases:
  "(\<exists>e. submit_try r m s = ([], Some e)) \<or>
   (\<exists>d t steps. r = Resolved d \<and> get_prop d ''agent_trace'' = Inr t \<and> js_iterate t = Inr steps \<and>
      submit_try r m s =
        (append_steps s steps @
           [s\<lparr>trace := trace s @ steps,
              result := JObj (AList.update ''mode'' (JStr m) (own_props d))\<rparr>], None))"
proof (cases r)
  case (Rejected x)
  then show ?thesis by simp
next
  case (Resolved d)
  show ?thesis
  proof (cases "get_prop d ''agent_trace''")
    case (Inl e)
    with Resolved show ?thesis by simp
  next
    case (Inr t)
    show ?thesis
    proof (cases "js_iterate t")
      case (Inl e)
      with Resolved Inr show ?thesis by simp
    next
      case it: (Inr steps)
      with Resolved Inr show ?thesis
        by (simp add: Let_def append_steps_last del: last.simps)
    qed
  qed
qed

lemma handleSubmit_blank:
  assumes "mode st = ''single''" and "list_all is_whitespace (domain st)"
  shows "handleSubmit post st =
           \<lparr>states = [st\<lparr>error := JStr ''Please enter a valid domain (e.g., example.com)''\<rparr>],
            requests = [], alerts = []\<rparr>"
  using assms by (simp add: handleSubmit_def trim_blank_iff)

lemma handleSubmit_thrown:
  assumes "mode st \<noteq> ''single'' \<or> \<not> list_all is_whitespace (domain st)"
    and "submit_try (post (submit_request st)) (mode st) (submit_reset st) = ([], Some e)"
  shows "handleSubmit post st =
           \<lparr>states = [submit_reset st,
                      (submit_reset st)\<lparr>error := js_or (err_detail e)
                         (JStr ''Failed to execute request. Is the backend running?'')\<rparr>,
                      (submit_reset st)\<lparr>error := js_or (err_detail e)
                         (JStr ''Failed to execute request. Is the backend running?''),
                         loading := False\<rparr>],
            requests = [submit_request st], alerts = []\<rparr>"
  using assms by (auto simp add: handleSubmit_def trim_blank_iff Let_def)

lemma handleSubmit_done:
  assumes "mode st \<noteq> ''single'' \<or> \<not> list_all is_whitespace (domain st)"
    and "post (submit_request st) = Resolved d"
    and "get_prop d ''agent_trace'' = Inr t" and "js_iterate t = Inr steps"
  shows "handleSubmit post st =
           \<lparr>states = submit_reset st # append_steps (submit_reset st) steps @
                      [(submit_reset st)\<lparr>trace := trace (submit_reset st) @ steps,
                          result := JObj (AList.update ''mode'' (JStr (mode st)) (own_props d))\<rparr>,
                       (submit_reset st)\<lparr>trace := trace (submit_reset st) @ steps,
                          result := JObj (AList.update ''mode'' (JStr (mode st)) (own_props d)),
                          loading := False\<rparr>],
            requests = [submit_request st], alerts = []\<rparr>"
  using assms
  by (auto simp add: handleSubmit_def trim_blank_iff Let_def append_steps_last last_cons_snoc
           simp del: last.simps)

lemma handleSubmit_cases:
  assumes "mode st \<noteq> ''single'' \<or> trim (domain st) \<noteq> []"
  shows "(\<exists>e. submit_try (post (submit_request st)) (mode st) (submit_reset st) = ([], Some e) \<and>
            handleSubmit post st =
              \<lparr>states = [submit_reset st,
                  (submit_reset st)\<lparr>error := js_or (err_detail e)
                     (JStr ''Failed to execute request. Is the backend running?'')\<rparr>,
                  (submit_reset st)\<lparr>error := js_or (err_detail e)
                     (JStr ''Failed to execute request. Is the backend running?''),
                     loading := False\<rparr>],
               requests = [submit_request st], alerts = []\<rparr>) \<or>
         (\<exists>d t steps. post (submit_request st) = Resolved d \<and>
            get_prop d ''agent_trace'' = Inr t \<and> js_iterate t = Inr steps \<and>
            snd (submit_try (post (submit_request st)) (mode st) (submit_reset st)) = None \<and>
            handleSubmit post st =
              \<lparr>states = submit_reset st # append_steps (submit_reset st) steps @
                  [(submit_reset st)\<lparr>trace := trace (submit_reset st) @ steps,
                      result := JObj (AList.update ''mode'' (JStr (mode st)) (own_props d))\<rparr>,
                   (submit_reset st)\<lparr>trace := trace (submit_reset st) @ steps,
                      result := JObj (AList.update ''mode'' (JStr (mode st)) (own_props d)),
                      loading := False\<rparr>],
               requests = [submit_request st], alerts = []\<rparr>)"
proof -
  from assms have v: "mode st \<noteq> ''single'' \<or> \<not> list_all is_whitespace (domain st)"
    by (simp add: trim_blank_iff)
  from submit_try_cases [of "post (submit_request st)" "mode st" "submit_reset st"]
  show ?thesis
  proof
    assume "\<exists>e. submit_try (post (submit_request st)) (mode st) (submit_reset st) = ([], Some e)"
    then obtain e where
      e: "submit_try (post (submit_request st)) (mode st) (submit_reset st) = ([], Some e)" ..
    from handleSubmit_thrown [of st post e, OF v e] e show ?thesis by blast
  next
    assume "\<exists>d t steps. post (submit_request st) = Resolved d \<and>
      get_prop d ''agent_trace'' = Inr t \<and> js_iterate t = Inr steps \<and>
      submit_try (post (submit_request st)) (mode st) (submit_reset st) =
        (append_steps (submit_reset st) steps @
           [(submit_reset st)\<lparr>trace := trace (submit_reset st) @ steps,
              result := JObj (AList.update ''mode'' (JStr (mode st)) (own_props d))\<rparr>], None)"
    then obtain d t steps where r: "post (submit_request st) = Resolved d"
      and t: "get_prop d ''agent_trace'' = Inr t" and it: "js_iterate t = Inr steps"
      and tr: "snd (submit_try (post (submit_request st)) (mode st) (submit_reset st)) = None"
      by force
    from handleSubmit_done [of st post d t steps, OF v r t it] r t it tr show ?thesis by blast
  qed
qed

lemma js_or_not_null: "js_or a (JStr s) \<noteq> JNull"
  by (cases a) (auto simp add: js_or_def)

section \<open>Submitting: validation, trace and final state\<close>

text \<open>
  Claim C4. A submission in single mode whose domain field is empty or holds only white
  space sets the validation message and stops there: no request is sent, and
  \<open>loading\<close>, \<open>result\<close> and \<open>trace\<close> are as before.
\<close>

theorem blank_domain_rejected:
  assumes "mode st = ''single''" and "list_all is_whitespace (domain st)"
  shows "requests (handleSubmit post st) = [] \<and>
         states (handleSubmit post st) =
           [st\<lparr>error := JStr ''Please enter a valid domain (e.g., example.com)''\<rparr>] \<and>
         error (final (handleSubmit post st)) =
           JStr ''Please enter a valid domain (e.g., example.com)'' \<and>
         loading (final (handleSubmit post st)) = loading st \<and>
         result (final (handleSubmit post st)) = result st \<and>
         trace (final (handleSubmit post st)) = trace st"
  using handleSubmit_blank [OF assms, of post] by (simp add: final_def)

theorem blank_domain_rejected_witness:
  "mode (initial_state\<lparr>mode := ''single'', domain := ''  ''\<rparr>) = ''single'' \<and>
   list_all is_whitespace (domain (initial_state\<lparr>mode := ''single'', domain := ''  ''\<rparr>)) \<and>
   requests (handleSubmit (backend_always (Resolved JNull))
               (initial_state\<lparr>mode := ''single'', domain := ''  ''\<rparr>)) = [] \<and>
   error (final (handleSubmit (backend_always (Resolved JNull))
                   (initial_state\<lparr>mode := ''single'', domain := ''  ''\<rparr>)))
     = JStr ''Please enter a valid domain (e.g., example.com)'' \<and>
   trace (final (handleSubmit (backend_always (Resolved JNull))
                   (initial_state\<lparr>mode := ''single'', domain := ''  ''\<rparr>))) = []"
proof -
  let ?st = "initial_state\<lparr>mode := ''single'', domain := ''  ''\<rparr>"
  have m: "mode ?st = ''single''" by simp
  have w: "list_all is_whitespace (domain ?st)" by (simp add: is_whitespace_def)
  have t: "trace ?st = []" by (simp add: initial_state_def)
  from blank_domain_rejected [OF m w, of "backend_always (Resolved JNull)"] m w t
  show ?thesis by simp
qed

text \<open>
  Claim C8. A submission that passes the validation resets the displayed trace: the first
  state of the run shows the one line \<^verbatim>\<open>Initializing autonomous intelligence engine...\<close>,
  and in every state of the run that line is the first element, whatever the server's
  events appended after it.
\<close>

theorem trace_reset_first:
  assumes "mode st \<noteq> ''single'' \<or> trim (domain st) \<noteq> []"
  shows "trace (hd (states (handleSubmit post st))) =
           [JStr ''Initializing autonomous intelligence engine...''] \<and>
         (\<forall>s \<in> set (states (handleSubmit post st)).
            \<exists>appended. trace s = JStr ''Initializing autonomous intelligence engine...'' # appended)"
  using handleSubmit_cases [OF assms, of post]
  by (auto simp add: submit_reset_def dest!: append_steps_mem)

theorem trace_reset_first_witness:
  "mode (initial_state\<lparr>trace := [JStr ''old'']\<rparr>) = ''campaign'' \<and>
   trace (hd (states (handleSubmit
       (backend_always (Resolved (JObj [(''leads'', JArr []), (''agent_trace'', JArr [JStr ''Scouting...''])])))
       (initial_state\<lparr>trace := [JStr ''old'']\<rparr>)))) =
     [JStr ''Initializing autonomous intelligence engine...''] \<and>
   (\<exists>appended. trace (final (handleSubmit
       (backend_always (Resolved (JObj [(''leads'', JArr []), (''agent_trace'', JArr [JStr ''Scouting...''])])))
       (initial_state\<lparr>trace := [JStr ''old'']\<rparr>))) =
     JStr ''Initializing autonomous intelligence engine...'' # appended)"
proof -
  let ?st = "initial_state\<lparr>trace := [JStr ''old'']\<rparr>"
  let ?post = "backend_always (Resolved (JObj [(''leads'', JArr []), (''agent_trace'', JArr [JStr ''Scouting...''])]))"
  have v: "mode ?st \<noteq> ''single'' \<or> trim (domain ?st) \<noteq> []"
    by (simp add: initial_state_def)
  have "states (handleSubmit ?post ?st) \<noteq> []"
    by (simp add: handleSubmit_def Let_def split: prod.splits)
  then have "final (handleSubmit ?post ?st) \<in> set (states (handleSubmit ?post ?st))"
    by (simp add: final_def)
  moreover have "mode ?st = ''campaign''"
    by (simp add: initial_state_def)
  ultimately show ?thesis using trace_reset_first [OF v, of ?post] by blast
qed

text \<open>
  Claim C9, as stated, fails on the run that the validation stops. After a campaign run
  that went well the result is set; in single mode with a domain of two spaces the next
  submission returns at once with the validation message, so \<open>result\<close> and \<open>error\<close>
  are both set when \<^verbatim>\<open>handleSubmit\<close> is over.
\<close>

theorem stale_result_counterexample:
  "reachable ((final (handleSubmit
       (backend_always (Resolved (JObj [(''leads'', JArr []), (''agent_trace'', JArr [JStr ''Scouting...''])])))
       initial_state))\<lparr>mode := ''single'', domain := ''  ''\<rparr>) \<and>
   result (final (handleSubmit (backend_always (Rejected None))
     ((final (handleSubmit
       (backend_always (Resolved (JObj [(''leads'', JArr []), (''agent_trace'', JArr [JStr ''Scouting...''])])))
       initial_state))\<lparr>mode := ''single'', domain := ''  ''\<rparr>))) =
     JObj [(''leads'', JArr []), (''agent_trace'', JArr [JStr ''Scouting...'']), (''mode'', JStr ''campaign'')] \<and>
   error (final (handleSubmit (backend_always (Rejected None))
     ((final (handleSubmit
       (backend_always (Resolved (JObj [(''leads'', JArr []), (''agent_trace'', JArr [JStr ''Scouting...''])])))
       initial_state))\<lparr>mode := ''single'', domain := ''  ''\<rparr>))) =
     JStr ''Please enter a valid domain (e.g., example.com)''"
proof -
  let ?d = "JObj [(''leads'', JArr []), (''agent_trace'', JArr [JStr ''Scouting...''])]"
  let ?out = "handleSubmit (backend_always (Resolved ?d)) initial_state"
  let ?st = "(final ?out)\<lparr>mode := ''single'', domain := ''  ''\<rparr>"
  have "states ?out \<noteq> []"
    by (simp add: handleSubmit_def Let_def split: prod.splits)
  then have "final ?out \<in> set (states ?out)"
    by (simp add: final_def)
  from reachable.submit [OF reachable.start this] have "reachable (final ?out)" .
  from reachable.set_mode [OF this, of "''single''"] have "reachable ((final ?out)\<lparr>mode := ''single''\<rparr>)"
    by simp
  from reachable.set_domain [OF this, of "''  ''"] have r: "reachable ?st" .
  have f: "result (final ?out) =
      JObj [(''leads'', JArr []), (''agent_trace'', JArr [JStr ''Scouting...'']), (''mode'', JStr ''campaign'')]"
    by (simp add: handleSubmit_def initial_state_def backend_always_def submit_reset_def
          get_prop_def nullish_def final_def Let_def)
  have b: "handleSubmit (backend_always (Rejected None)) ?st =
      \<lparr>states = [?st\<lparr>error := JStr ''Please enter a valid domain (e.g., example.com)''\<rparr>],
       requests = [], alerts = []\<rparr>"
    by (rule handleSubmit_blank) (simp_all add: is_whitespace_def)
  have "result (final (handleSubmit (backend_always (Rejected None)) ?st)) = result (final ?out)"
    and e: "error (final (handleSubmit (backend_always (Rejected None)) ?st)) =
      JStr ''Please enter a valid domain (e.g., example.com)''"
    unfolding b by (simp_all add: final_def)
  with f r show ?thesis by simp
qed

text \<open>
  Claim C9, amended. When a submission that passed the validation is over, whether its
  request went well or not, \<open>loading\<close> is false and at most one of \<open>result\<close> and
  \<open>error\<close> is set. When the request is answered and the answer's \<^verbatim>\<open>agent_trace\<close> can
  be iterated, \<open>error\<close> is still null and \<open>result\<close> is the answer with the mode;
  when the answer has no such trace, or the request is rejected, \<open>result\<close> is still
  null and \<open>error\<close> is the message.
\<close>

theorem submit_settles:
  assumes "mode st \<noteq> ''single'' \<or> trim (domain st) \<noteq> []"
  shows "loading (final (handleSubmit post st)) = False \<and>
         (result (final (handleSubmit post st)) = JNull \<or>
          error (final (handleSubmit post st)) = JNull) \<and>
         (\<forall>d t steps. post (submit_request st) = Resolved d \<longrightarrow>
              get_prop d ''agent_trace'' = Inr t \<longrightarrow> js_iterate t = Inr steps \<longrightarrow>
              error (final (handleSubmit post st)) = JNull \<and>
              result (final (handleSubmit post st)) =
                JObj (AList.update ''mode'' (JStr (mode st)) (own_props d))) \<and>
         (\<forall>d. post (submit_request st) = Resolved d \<longrightarrow>
              (\<forall>t. get_prop d ''agent_trace'' = Inr t \<longrightarrow> js_iterate t = Inl TypeError) \<longrightarrow>
              result (final (handleSubmit post st)) = JNull \<and>
              error (final (handleSubmit post st)) =
                JStr ''Failed to execute request. Is the backend running?'') \<and>
         (\<forall>r. post (submit_request st) = Rejected r \<longrightarrow>
              result (final (handleSubmit post st)) = JNull \<and>
              error (final (handleSubmit post st)) =
                js_or (err_detail (AxiosError r))
                  (JStr ''Failed to execute request. Is the backend running?'') \<and>
              error (final (handleSubmit post st)) \<noteq> JNull)"
proof -
  from assms have v: "mode st \<noteq> ''single'' \<or> \<not> list_all is_whitespace (domain st)"
    by (simp add: trim_blank_iff)
  let ?f = "final (handleSubmit post st)"
  let ?msg = "JStr ''Failed to execute request. Is the backend running?''"
  have a: "loading ?f = False \<and> (result ?f = JNull \<or> error ?f = JNull)"
    using handleSubmit_cases [OF assms, of post]
    by (auto simp add: submit_reset_def final_def)
  have b: "error ?f = JNull \<and> result ?f = JObj (AList.update ''mode'' (JStr (mode st)) (own_props d))"
    if "post (submit_request st) = Resolved d" "get_prop d ''agent_trace'' = Inr t"
      "js_iterate t = Inr steps" for d t steps
    using handleSubmit_done [of st post d t steps, OF v that]
    by (simp add: final_def submit_reset_def)
  have c: "result ?f = JNull \<and> error ?f = ?msg"
    if r: "post (submit_request st) = Resolved d"
      and n: "\<forall>t. get_prop d ''agent_trace'' = Inr t \<longrightarrow> js_iterate t = Inl TypeError" for d
  proof -
    have "submit_try (post (submit_request st)) (mode st) (submit_reset st) = ([], Some TypeError)"
    proof (cases "get_prop d ''agent_trace''")
      case (Inl e)
      then have "e = TypeError" by (auto simp add: get_prop_def split: if_splits)
      with Inl r show ?thesis by simp
    next
      case (Inr t)
      with n have "js_iterate t = Inl TypeError" by blast
      with Inr r show ?thesis by simp
    qed
    from handleSubmit_thrown [of st post TypeError, OF v this] show ?thesis
      by (simp add: final_def submit_reset_def js_or_def)
  qed
  have e: "result ?f = JNull \<and> error ?f = js_or (err_detail (AxiosError r)) ?msg \<and> error ?f \<noteq> JNull"
    if "post (submit_request st) = Rejected r" for r
  proof -
    from that have "submit_try (post (submit_request st)) (mode st) (submit_reset st) =
        ([], Some (AxiosError r))"
      by simp
    from handleSubmit_thrown [of st post "AxiosError r", OF v this] show ?thesis
      by (simp add: final_def submit_reset_def js_or_not_null)
  qed
  from a b c e show ?thesis by blast
qed

theorem submit_settles_witness:
  "mode initial_state = ''campaign'' \<and>
   backend_always (Resolved (JObj [(''leads'', JArr []), (''agent_trace'', JArr [JStr ''Scouting...''])]))
     (submit_request initial_state) =
     Resolved (JObj [(''leads'', JArr []), (''agent_trace'', JArr [JStr ''Scouting...''])]) \<and>
   get_prop (JObj [(''leads'', JArr []), (''agent_trace'', JArr [JStr ''Scouting...''])]) ''agent_trace''
     = Inr (JArr [JStr ''Scouting...'']) \<and>
   js_iterate (JArr [JStr ''Scouting...'']) = Inr [JStr ''Scouting...''] \<and>
   loading (final (handleSubmit
     (backend_always (Resolved (JObj [(''leads'', JArr []), (''agent_trace'', JArr [JStr ''Scouting...''])])))
     initial_state)) = False \<and>
   error (final (handleSubmit
     (backend_always (Resolved (JObj [(''leads'', JArr []), (''agent_trace'', JArr [JStr ''Scouting...''])])))
     initial_state)) = JNull \<and>
   result (final (handleSubmit
     (backend_always (Resolved (JObj [(''leads'', JArr []), (''agent_trace'', JArr [JStr ''Scouting...''])])))
     initial_state)) =
     JObj [(''leads'', JArr []), (''agent_trace'', JArr [JStr ''Scouting...'']), (''mode'', JStr ''campaign'')] \<and>
   backend_always (Rejected (Some (JObj [(''detail'', JStr ''Invalid service category'')])))
     (submit_request initial_state) =
     Rejected (Some (JObj [(''detail'', JStr ''Invalid service category'')])) \<and>
   loading (final (handleSubmit
     (backend_always (Rejected (Some (JObj [(''detail'', JStr ''Invalid service category'')]))))
     initial_state)) = False \<and>
   result (final (handleSubmit
     (backend_always (Rejected (Some (JObj [(''detail'', JStr ''Invalid service category'')]))))
     initial_state)) = JNull \<and>
   error (final (handleSubmit
     (backend_always (Rejected (Some (JObj [(''detail'', JStr ''Invalid service category'')]))))
     initial_state)) = JStr ''Invalid service category''"
proof -
  let ?d = "JObj [(''leads'', JArr []), (''agent_trace'', JArr [JStr ''Scouting...''])]"
  let ?ok = "backend_always (Resolved ?d)"
  let ?r = "Some (JObj [(''detail'', JStr ''Invalid service category'')])"
  let ?ko = "backend_always (Rejected ?r)"
  have m: "mode initial_state = ''campaign''" by (simp add: initial_state_def)
  then have v: "mode initial_state \<noteq> ''single'' \<or> trim (domain initial_state) \<noteq> []" by simp
  have p: "?ok (submit_request initial_state) = Resolved ?d"
    by (simp only: backend_always_def)
  have g: "get_prop ?d ''agent_trace'' = Inr (JArr [JStr ''Scouting...''])"
    by (simp add: get_prop_def nullish_def)
  have i: "js_iterate (JArr [JStr ''Scouting...'']) = Inr [JStr ''Scouting...'']" by simp
  have q: "?ko (submit_request initial_state) = Rejected ?r"
    by (simp only: backend_always_def)
  note ok = submit_settles [OF v, of ?ok]
  note ko = submit_settles [OF v, of ?ko]
  from ok have l1: "loading (final (handleSubmit ?ok initial_state)) = False" by blast
  from ok p g i have "error (final (handleSubmit ?ok initial_state)) = JNull \<and>
      result (final (handleSubmit ?ok initial_state)) =
        JObj (AList.update ''mode'' (JStr (mode initial_state)) (own_props ?d))"
    by blast
  then have e1: "error (final (handleSubmit ?ok initial_state)) = JNull"
    and r1: "result (final (handleSubmit ?ok initial_state)) =
      JObj [(''leads'', JArr []), (''agent_trace'', JArr [JStr ''Scouting...'']), (''mode'', JStr ''campaign'')]"
    by (simp_all add: m)
  from ko have l2: "loading (final (handleSubmit ?ko initial_state)) = False" by blast
  from ko q have "result (final (handleSubmit ?ko initial_state)) = JNull \<and>
      error (final (handleSubmit ?ko initial_state)) =
        js_or (err_detail (AxiosError ?r)) (JStr ''Failed to execute request. Is the backend running?'')"
    by blast
  then have r2: "result (final (handleSubmit ?ko initial_state)) = JNull"
    and e2: "error (final (handleSubmit ?ko initial_state)) = JStr ''Invalid service category''"
    by (simp_all add: js_or_def opt_chain_def nullish_def)
  from m p g i l1 e1 r1 q l2 r2 e2 show ?thesis by blast
qed

text \<open>
  Claim C2. When the request of a submission is answered and the answer's
  \<^verbatim>\<open>agent_trace\<close> can be iterated, its elements are appended to the displayed trace
  as they are and in their order, one per round of the loop: after \<open>n\<close> rounds the
  trace is the initial line followed by the first \<open>n\<close> elements, and at the end it is
  the initial line followed by the whole \<^verbatim>\<open>agent_trace\<close>.
\<close>

theorem trace_appended_in_order:
  assumes "mode st \<noteq> ''single'' \<or> trim (domain st) \<noteq> []"
    and "post (submit_request st) = Resolved d"
    and "get_prop d ''agent_trace'' = Inr t" and "js_iterate t = Inr steps"
  shows "trace (final (handleSubmit post st)) =
           JStr ''Initializing autonomous intelligence engine...'' # steps \<and>
         (\<forall>n \<le> length steps. trace (states (handleSubmit post st) ! n) =
             JStr ''Initializing autonomous intelligence engine...'' # take n steps)"
proof -
  from assms(1) have v: "mode st \<noteq> ''single'' \<or> \<not> list_all is_whitespace (domain st)"
    by (simp add: trim_blank_iff)
  note h = handleSubmit_done [of st post d t steps, OF v assms(2-4)]
  have a: "trace (final (handleSubmit post st)) =
             JStr ''Initializing autonomous intelligence engine...'' # steps"
    by (simp add: h final_def submit_reset_def)
  have b: "trace (states (handleSubmit post st) ! n) =
             JStr ''Initializing autonomous intelligence engine...'' # take n steps"
    if "n \<le> length steps" for n
  proof (cases n)
    case 0
    then show ?thesis by (simp add: h submit_reset_def)
  next
    case (Suc m)
    with that have "m < length steps" by simp
    then show ?thesis using Suc
      by (simp add: h nth_append append_steps_length append_steps_nth submit_reset_def)
  qed
  from a b show ?thesis by blast
qed

theorem trace_appended_in_order_witness:
  "mode initial_state = ''campaign'' \<and>
   backend_always (Resolved (JObj [(''leads'', JArr []),
       (''agent_trace'', JArr [JStr ''Scouting...'', JStr ''0 leads found''])]))
     (submit_request initial_state) =
     Resolved (JObj [(''leads'', JArr []),
       (''agent_trace'', JArr [JStr ''Scouting...'', JStr ''0 leads found''])]) \<and>
   get_prop (JObj [(''leads'', JArr []),
       (''agent_trace'', JArr [JStr ''Scouting...'', JStr ''0 leads found''])]) ''agent_trace'' =
     Inr (JArr [JStr ''Scouting...'', JStr ''0 leads found'']) \<and>
   js_iterate (JArr [JStr ''Scouting...'', JStr ''0 leads found'']) =
     Inr [JStr ''Scouting...'', JStr ''0 leads found''] \<and>
   trace (final (handleSubmit
      (backend_always (Resolved (JObj [(''leads'', JArr []),
         (''agent_trace'', JArr [JStr ''Scouting...'', JStr ''0 leads found''])])))
      initial_state)) =
     [JStr ''Initializing autonomous intelligence engine...'', JStr ''Scouting...'',
      JStr ''0 leads found'']"
proof -
  let ?d = "JObj [(''leads'', JArr []),
       (''agent_trace'', JArr [JStr ''Scouting...'', JStr ''0 leads found''])]"
  have v: "mode initial_state \<noteq> ''single'' \<or> trim (domain initial_state) \<noteq> []"
    by (simp add: initial_state_def)
  have p: "backend_always (Resolved ?d) (submit_request initial_state) = Resolved ?d"
    by (simp add: backend_always_def)
  have g: "get_prop ?d ''agent_trace'' = Inr (JArr [JStr ''Scouting...'', JStr ''0 leads found''])"
    by (simp add: get_prop_def nullish_def)
  have i: "js_iterate (JArr [JStr ''Scouting...'', JStr ''0 leads found'']) =
     Inr [JStr ''Scouting...'', JStr ''0 leads found'']"
    by simp
  have m: "mode initial_state = ''campaign''"
    by (simp add: initial_state_def)
  from trace_appended_in_order [of initial_state "backend_always (Resolved ?d)" ?d, OF v p g i] m p g i
  show ?thesis by simp
qed

section \<open>Drafting an email: the request and what changes\<close>

lemma email_try_request:
  "r \<in> set (fst (email_try post lead category)) \<Longrightarrow>
     r = Post (API_BASE_URL @ ''/generate_email'')
           (JObj [(''company_name'', js_prop lead ''name''),
                  (''domain'', js_prop lead ''domain''),
                  (''why_we_help'', js_prop lead ''why_we_help''),
                  (''service_category'', JStr category)])"
  by (auto simp add: get_prop_def Let_def split: if_splits http_response.splits)

lemma email_try_sent:
  "\<not> nullish lead \<Longrightarrow>
     fst (email_try post lead category) =
       [Post (API_BASE_URL @ ''/generate_email'')
           (JObj [(''company_name'', js_prop lead ''name''),
                  (''domain'', js_prop lead ''domain''),
                  (''why_we_help'', js_prop lead ''why_we_help''),
                  (''service_category'', JStr category)])]"
  by (auto simp add: get_prop_def Let_def split: if_splits http_response.splits)

lemma email_try_stored:
  "\<not> nullish lead \<Longrightarrow>
   post (Post (API_BASE_URL @ ''/generate_email'')
           (JObj [(''company_name'', js_prop lead ''name''),
                  (''domain'', js_prop lead ''domain''),
                  (''why_we_help'', js_prop lead ''why_we_help''),
                  (''service_category'', JStr category)])) = Resolved d \<Longrightarrow>
   snd (email_try post lead category) = get_prop d ''email_body''"
  by (auto simp add: get_prop_def Let_def split: if_splits http_response.splits)

text \<open>
  Claim C5. Whatever the lead and the index, a request of \<^verbatim>\<open>handleGenerateEmail\<close>
  goes to \<^verbatim>\<open>/generate_email\<close> with a body of exactly the four fields
  \<^verbatim>\<open>company_name\<close>, \<^verbatim>\<open>domain\<close>, \<^verbatim>\<open>why_we_help\<close> and \<^verbatim>\<open>service_category\<close>,
  holding the lead's \<^verbatim>\<open>name\<close>, \<^verbatim>\<open>domain\<close> and \<^verbatim>\<open>why_we_help\<close> and the selected
  category. For a lead that is an object (anything but \<^verbatim>\<open>null\<close> and
  \<^verbatim>\<open>undefined\<close>) this one request is sent, and when it is answered with a body that
  has an \<^verbatim>\<open>email_body\<close> to read, the email stored at the index is that
  \<^verbatim>\<open>email_body\<close>.
\<close>

theorem generate_email_request:
  "(\<forall>r \<in> set (requests (handleGenerateEmail post lead index st)).
      r = Post ''http://localhost:8000/generate_email''
            (JObj [(''company_name'', js_prop lead ''name''),
                   (''domain'', js_prop lead ''domain''),
                   (''why_we_help'', js_prop lead ''why_we_help''),
                   (''service_category'', JStr (serviceCategory st))])) \<and>
   (\<not> nullish lead \<longrightarrow>
      requests (handleGenerateEmail post lead index st) =
        [Post ''http://localhost:8000/generate_email''
            (JObj [(''company_name'', js_prop lead ''name''),
                   (''domain'', js_prop lead ''domain''),
                   (''why_we_help'', js_prop lead ''why_we_help''),
                   (''service_category'', JStr (serviceCategory st))])] \<and>
      (\<forall>d body.
         post (Post ''http://localhost:8000/generate_email''
            (JObj [(''company_name'', js_prop lead ''name''),
                   (''domain'', js_prop lead ''domain''),
                   (''why_we_help'', js_prop lead ''why_we_help''),
                   (''service_category'', JStr (serviceCategory st))])) = Resolved d \<longrightarrow>
         get_prop d ''email_body'' = Inr body \<longrightarrow>
         emails (final (handleGenerateEmail post lead index st)) index = Some body))"
proof -
  have url: "API_BASE_URL @ ''/generate_email'' = ''http://localhost:8000/generate_email''"
    by (simp add: API_BASE_URL_def)
  have a: "\<forall>r \<in> set (requests (handleGenerateEmail post lead index st)).
      r = Post ''http://localhost:8000/generate_email''
            (JObj [(''company_name'', js_prop lead ''name''),
                   (''domain'', js_prop lead ''domain''),
                   (''why_we_help'', js_prop lead ''why_we_help''),
                   (''service_category'', JStr (serviceCategory st))])"
    using email_try_request [of _ post lead "serviceCategory st"]
    by (auto simp add: handleGenerateEmail_def Let_def url split: prod.splits)
  have b: "requests (handleGenerateEmail post lead index st) =
        [Post ''http://localhost:8000/generate_email''
            (JObj [(''company_name'', js_prop lead ''name''),
                   (''domain'', js_prop lead ''domain''),
                   (''why_we_help'', js_prop lead ''why_we_help''),
                   (''service_category'', JStr (serviceCategory st))])]" if "\<not> nullish lead"
    using email_try_sent [OF that, of post "serviceCategory st"]
    by (auto simp add: handleGenerateEmail_def Let_def url split: prod.splits)
  have c: "emails (final (handleGenerateEmail post lead index st)) index = Some body"
    if "\<not> nullish lead" and "post (Post ''http://localhost:8000/generate_email''
            (JObj [(''company_name'', js_prop lead ''name''),
                   (''domain'', js_prop lead ''domain''),
                   (''why_we_help'', js_prop lead ''why_we_help''),
                   (''service_category'', JStr (serviceCategory st))])) = Resolved d"
      and "get_prop d ''email_body'' = Inr body" for d body
    using email_try_stored [of lead post "serviceCategory st" d] that
    by (auto simp add: handleGenerateEmail_def Let_def url final_def split: prod.splits)
  from a b c show ?thesis by blast
qed

theorem generate_email_request_witness:
  "\<not> nullish (JObj [(''name'', JStr ''Tiny DevOps''), (''domain'', JStr ''tinydevops.io''),
                    (''why_we_help'', JStr ''They run their own cluster.'')]) \<and>
   requests (handleGenerateEmail
       (backend_always (Resolved (JObj [(''email_body'', JStr ''Hi there''), (''subject_line'', JStr ''Hello'')])))
       (JObj [(''name'', JStr ''Tiny DevOps''), (''domain'', JStr ''tinydevops.io''),
              (''why_we_help'', JStr ''They run their own cluster.'')])
       2 (initial_state\<lparr>serviceCategory := ''Cloud & DevOps''\<rparr>)) =
     [Post ''http://localhost:8000/generate_email''
        (JObj [(''company_name'', JStr ''Tiny DevOps''), (''domain'', JStr ''tinydevops.io''),
               (''why_we_help'', JStr ''They run their own cluster.''),
               (''service_category'', JStr ''Cloud & DevOps'')])] \<and>
   emails (final (handleGenerateEmail
       (backend_always (Resolved (JObj [(''email_body'', JStr ''Hi there''), (''subject_line'', JStr ''Hello'')])))
       (JObj [(''name'', JStr ''Tiny DevOps''), (''domain'', JStr ''tinydevops.io''),
              (''why_we_help'', JStr ''They run their own cluster.'')])
       2 (initial_state\<lparr>serviceCategory := ''Cloud & DevOps''\<rparr>))) 2 = Some (JStr ''Hi there'')"
proof -
  let ?lead = "JObj [(''name'', JStr ''Tiny DevOps''), (''domain'', JStr ''tinydevops.io''),
                    (''why_we_help'', JStr ''They run their own cluster.'')]"
  let ?d = "JObj [(''email_body'', JStr ''Hi there''), (''subject_line'', JStr ''Hello'')]"
  let ?st = "initial_state\<lparr>serviceCategory := ''Cloud & DevOps''\<rparr>"
  let ?post = "backend_always (Resolved ?d)"
  have n: "\<not> nullish ?lead" by (simp add: nullish_def)
  have g: "get_prop ?d ''email_body'' = Inr (JStr ''Hi there'')"
    by (simp add: get_prop_def nullish_def)
  note t = generate_email_request [of ?post ?lead 2 ?st]
  from t n have r: "requests (handleGenerateEmail ?post ?lead 2 ?st) =
        [Post ''http://localhost:8000/generate_email''
            (JObj [(''company_name'', js_prop ?lead ''name''),
                   (''domain'', js_prop ?lead ''domain''),
                   (''why_we_help'', js_prop ?lead ''why_we_help''),
                   (''service_category'', JStr (serviceCategory ?st))])]"
    by blast
  have p: "?post (Post ''http://localhost:8000/generate_email''
            (JObj [(''company_name'', js_prop ?lead ''name''),
                   (''domain'', js_prop ?lead ''domain''),
                   (''why_we_help'', js_prop ?lead ''why_we_help''),
                   (''service_category'', JStr (serviceCategory ?st))])) = Resolved ?d"
    by (simp only: backend_always_def)
  from t n p g have e: "emails (final (handleGenerateEmail ?post ?lead 2 ?st)) 2 = Some (JStr ''Hi there'')"
    by blast
  have r': "requests (handleGenerateEmail ?post ?lead 2 ?st) =
     [Post ''http://localhost:8000/generate_email''
        (JObj [(''company_name'', JStr ''Tiny DevOps''), (''domain'', JStr ''tinydevops.io''),
               (''why_we_help'', JStr ''They run their own cluster.''),
               (''service_category'', JStr ''Cloud & DevOps'')])]"
    unfolding r by simp
  from n r' e show ?thesis by blast
qed

text \<open>
  Claim C6. Drafting the email of the lead at index \<open>i\<close> touches the entries of
  \<open>emails\<close> and \<open>emailLoading\<close> at \<open>i\<close> only: in every state of the run the entries
  at any other index \<open>j\<close> are as before, and so are the result (with its leads), the
  trace, the error and the rest of the state. A call does not depend on earlier ones:
  whatever \<open>emails\<close> and \<open>emailLoading\<close> held, the same request is sent, and the
  email at \<open>i\<close> afterwards is the new body, or the old entry when the call failed.
\<close>

theorem generate_email_frame:
  assumes "s \<in> set (states (handleGenerateEmail post lead i st))" and "j \<noteq> i"
  shows "emails s j = emails st j \<and> emailLoading s j = emailLoading st j \<and>
         result s = result st \<and> trace s = trace st \<and> error s = error st \<and>
         loading s = loading st \<and> mode s = mode st \<and> domain s = domain st \<and>
         serviceCategory s = serviceCategory st \<and>
         requests (handleGenerateEmail post lead i (st\<lparr>emails := drafted, emailLoading := busy\<rparr>)) =
           requests (handleGenerateEmail post lead i st) \<and>
         emails (final (handleGenerateEmail post lead i (st\<lparr>emails := drafted, emailLoading := busy\<rparr>))) i =
           (case snd (email_try post lead (serviceCategory st)) of
              Inl e \<Rightarrow> drafted i
            | Inr body \<Rightarrow> Some body)"
proof -
  from assms have "emails s j = emails st j \<and> emailLoading s j = emailLoading st j \<and>
         result s = result st \<and> trace s = trace st \<and> error s = error st \<and>
         loading s = loading st \<and> mode s = mode st \<and> domain s = domain st \<and>
         serviceCategory s = serviceCategory st"
    by (auto simp add: handleGenerateEmail_def Let_def split: prod.splits sum.splits)
  moreover have "requests (handleGenerateEmail post lead i (st\<lparr>emails := drafted, emailLoading := busy\<rparr>)) =
           requests (handleGenerateEmail post lead i st)"
    by (simp add: handleGenerateEmail_def Let_def split: prod.splits)
  moreover have "emails (final (handleGenerateEmail post lead i (st\<lparr>emails := drafted, emailLoading := busy\<rparr>))) i =
           (case snd (email_try post lead (serviceCategory st)) of
              Inl e \<Rightarrow> drafted i
            | Inr body \<Rightarrow> Some body)"
    by (simp add: handleGenerateEmail_def final_def Let_def split: prod.splits sum.splits)
  ultimately show ?thesis by blast
qed

theorem generate_email_frame_witness:
  "final (handleGenerateEmail (backend_always (Resolved (JObj [(''email_body'', JStr ''new'')])))
       (JObj [(''name'', JStr ''Tiny DevOps'')]) 0
       (initial_state\<lparr>emails := [0 \<mapsto> JStr ''old 0'', 1 \<mapsto> JStr ''old 1'']\<rparr>))
     \<in> set (states (handleGenerateEmail (backend_always (Resolved (JObj [(''email_body'', JStr ''new'')])))
       (JObj [(''name'', JStr ''Tiny DevOps'')]) 0
       (initial_state\<lparr>emails := [0 \<mapsto> JStr ''old 0'', 1 \<mapsto> JStr ''old 1'']\<rparr>))) \<and>
   (1 :: nat) \<noteq> 0 \<and>
   emails (final (handleGenerateEmail (backend_always (Resolved (JObj [(''email_body'', JStr ''new'')])))
       (JObj [(''name'', JStr ''Tiny DevOps'')]) 0
       (initial_state\<lparr>emails := [0 \<mapsto> JStr ''old 0'', 1 \<mapsto> JStr ''old 1'']\<rparr>))) 1 = Some (JStr ''old 1'') \<and>
   emails (final (handleGenerateEmail (backend_always (Resolved (JObj [(''email_body'', JStr ''new'')])))
       (JObj [(''name'', JStr ''Tiny DevOps'')]) 0
       (initial_state\<lparr>emails := [0 \<mapsto> JStr ''old 0'', 1 \<mapsto> JStr ''old 1'']\<rparr>))) 0 = Some (JStr ''new'')"
proof -
  let ?post = "backend_always (Resolved (JObj [(''email_body'', JStr ''new'')]))"
  let ?lead = "JObj [(''name'', JStr ''Tiny DevOps'')]"
  let ?st = "initial_state\<lparr>emails := [0 \<mapsto> JStr ''old 0'', 1 \<mapsto> JStr ''old 1'']\<rparr>"
  have m: "final (handleGenerateEmail ?post ?lead 0 ?st) \<in> set (states (handleGenerateEmail ?post ?lead 0 ?st))"
    by (simp add: final_def handleGenerateEmail_def Let_def split: prod.splits)
  have n: "(1 :: nat) \<noteq> 0" by simp
  have e: "emails (final (handleGenerateEmail ?post ?lead 0 ?st)) 0 = Some (JStr ''new'')"
    by (simp add: final_def handleGenerateEmail_def Let_def backend_always_def get_prop_def nullish_def)
  from generate_email_frame [OF m n]
  have "emails (final (handleGenerateEmail ?post ?lead 0 ?st)) 1 = emails ?st 1"
    by blast
  then have "emails (final (handleGenerateEmail ?post ?lead 0 ?st)) 1 = Some (JStr ''old 1'')"
    by simp
  with m n e show ?thesis by blast
qed

section \<open>The category of a campaign request\<close>

lemma handleGenerateEmail_category:
  "s \<in> set (states (handleGenerateEmail post lead i st)) \<Longrightarrow> serviceCategory s = serviceCategory st"
  by (auto simp add: handleGenerateEmail_def Let_def split: prod.splits sum.splits)

lemma handleSubmit_category:
  assumes "s \<in> set (states (handleSubmit post st))"
  shows "serviceCategory s = serviceCategory st"
proof (cases "mode st \<noteq> ''single'' \<or> trim (domain st) \<noteq> []")
  case True
  from handleSubmit_cases [OF True, of post] assms show ?thesis
    by (auto simp add: submit_reset_def dest!: append_steps_mem)
next
  case False
  then have "mode st = ''single''" "list_all is_whitespace (domain st)"
    by (simp_all add: trim_blank_iff)
  from handleSubmit_blank [OF this, of post] assms show ?thesis by simp
qed

lemma reachable_category: "reachable st \<Longrightarrow> serviceCategory st \<in> set SERVICE_CATEGORIES"
proof (induction rule: reachable.induct)
  case start
  then show ?case by (simp add: initial_state_def SERVICE_CATEGORIES_def)
next
  case (submit st st' post)
  then show ?case by (simp add: handleSubmit_category)
next
  case (generate_email st st' post lead index)
  then show ?case by (simp add: handleGenerateEmail_category)
qed simp_all

lemma handleSubmit_sent:
  "mode st \<noteq> ''single'' \<or> trim (domain st) \<noteq> [] \<Longrightarrow>
     requests (handleSubmit post st) = [submit_request st]"
  using handleSubmit_cases [of st post] by auto

lemma handleSubmit_requests:
  "r \<in> set (requests (handleSubmit post st)) \<Longrightarrow> r = submit_request st"
  by (auto simp add: handleSubmit_def Let_def split: if_splits prod.splits)

text \<open>
  Claim C3. In every state the interface can reach, the selected category is one of
  Application Development, AI & Data Analytics, Cloud & DevOps and Digital
  Transformation; a submission in campaign mode sends one request, to
  \<^verbatim>\<open>/analyze\<close>, and every request to \<^verbatim>\<open>/analyze\<close> has the body
  \<^verbatim>\<open>{ service_category }\<close> with that category.
\<close>

theorem analyze_category_enumerated:
  assumes "reachable st"
  shows "serviceCategory st \<in> {''Application Development'', ''AI & Data Analytics'',
                               ''Cloud & DevOps'', ''Digital Transformation''} \<and>
         (mode st = ''campaign'' \<longrightarrow>
            requests (handleSubmit post st) =
              [Post ''http://localhost:8000/analyze''
                 (JObj [(''service_category'', JStr (serviceCategory st))])]) \<and>
         (\<forall>body. Post ''http://localhost:8000/analyze'' body \<in> set (requests (handleSubmit post st)) \<longrightarrow>
            body = JObj [(''service_category'', JStr (serviceCategory st))])"
proof -
  from reachable_category [OF assms] have a: "serviceCategory st \<in>
      {''Application Development'', ''AI & Data Analytics'', ''Cloud & DevOps'', ''Digital Transformation''}"
    by (simp add: SERVICE_CATEGORIES_def)
  have b: "requests (handleSubmit post st) =
              [Post ''http://localhost:8000/analyze''
                 (JObj [(''service_category'', JStr (serviceCategory st))])]" if "mode st = ''campaign''"
    using that handleSubmit_sent [of st post]
    by (simp add: submit_request_def API_BASE_URL_def)
  have c: "body = JObj [(''service_category'', JStr (serviceCategory st))]"
    if "Post ''http://localhost:8000/analyze'' body \<in> set (requests (handleSubmit post st))" for body
  proof -
    from handleSubmit_requests [OF that]
    have "Post ''http://localhost:8000/analyze'' body = submit_request st" .
    then show ?thesis
      by (auto simp add: submit_request_def API_BASE_URL_def split: if_splits)
  qed
  from a b c show ?thesis by blast
qed

theorem analyze_category_enumerated_witness:
  "reachable (initial_state\<lparr>serviceCategory := ''Cloud & DevOps''\<rparr>) \<and>
   mode (initial_state\<lparr>serviceCategory := ''Cloud & DevOps''\<rparr>) = ''campaign'' \<and>
   requests (handleSubmit (backend_always (Rejected None))
               (initial_state\<lparr>serviceCategory := ''Cloud & DevOps''\<rparr>)) =
     [Post ''http://localhost:8000/analyze'' (JObj [(''service_category'', JStr ''Cloud & DevOps'')])]"
proof -
  have "''Cloud & DevOps'' \<in> set SERVICE_CATEGORIES"
    by (simp add: SERVICE_CATEGORIES_def)
  from reachable.set_category [OF reachable.start this]
  have r: "reachable (initial_state\<lparr>serviceCategory := ''Cloud & DevOps''\<rparr>)" .
  have m: "mode (initial_state\<lparr>serviceCategory := ''Cloud & DevOps''\<rparr>) = ''campaign''"
    by (simp add: initial_state_def)
  from analyze_category_enumerated [OF r, of "backend_always (Rejected None)"] m
  have "requests (handleSubmit (backend_always (Rejected None))
               (initial_state\<lparr>serviceCategory := ''Cloud & DevOps''\<rparr>)) =
     [Post ''http://localhost:8000/analyze''
        (JObj [(''service_category'',
               JStr (serviceCategory (initial_state\<lparr>serviceCategory := ''Cloud & DevOps''\<rparr>)))])]"
    by blast
  then have "requests (handleSubmit (backend_always (Rejected None))
               (initial_state\<lparr>serviceCategory := ''Cloud & DevOps''\<rparr>)) =
     [Post ''http://localhost:8000/analyze'' (JObj [(''service_category'', JStr ''Cloud & DevOps'')])]"
    by simp
  with r m show ?thesis by blast
qed

section \<open>A response without leads\<close>

lemma typeof_string_child: "typeof_string v \<Longrightarrow> react_child v"
  by (cases v) simp_all

lemma trace_panel_strings:
  "list_all typeof_string (trace st) \<Longrightarrow> mode st = ''campaign'' \<Longrightarrow>
     trace_panel st = Inr (Some (trace st))"
proof -
  assume a: "list_all typeof_string (trace st)" and m: "mode st = ''campaign''"
  have "find (\<lambda>step. \<not> react_child step) (trace st) = None"
    using a by (auto simp add: find_None_iff list_all_iff typeof_string_child)
  with m show ?thesis by (simp add: trace_panel_def)
qed

text \<open>
  Claim C7, as stated, fails: a campaign response with an empty \<^verbatim>\<open>leads\<close> and no
  \<^verbatim>\<open>agent_trace\<close> makes the loop over the trace throw, so the error is set, the
  result stays null and the page shows the placeholder instead of the notice.
\<close>

theorem no_leads_without_trace_counterexample:
  "mode initial_state = ''campaign'' \<and>
   js_prop (JObj [(''leads'', JArr [])]) ''leads'' = JArr [] \<and>
   error (final (handleSubmit (backend_always (Resolved (JObj [(''leads'', JArr [])]))) initial_state))
     = JStr ''Failed to execute request. Is the backend running?'' \<and>
   result (final (handleSubmit (backend_always (Resolved (JObj [(''leads'', JArr [])]))) initial_state))
     = JNull \<and>
   render_results to_nan
     (final (handleSubmit (backend_always (Resolved (JObj [(''leads'', JArr [])]))) initial_state))
     = Inr Awaiting"
  by (simp add: handleSubmit_def initial_state_def backend_always_def submit_request_def
        submit_reset_def get_prop_def nullish_def final_def js_or_def render_results_def Let_def)

text \<open>
  Claim C7, amended. For a campaign response whose \<^verbatim>\<open>agent_trace\<close> can be iterated
  and yields strings only, and whose \<^verbatim>\<open>leads\<close> is missing, null or the empty array,
  the submission ends with no error, and the page renders the notice that no leads were
  found, with no lead card. In every state of the run the trace panel mounts its lines,
  no error is shown, and the results column is the placeholder or the notice.
\<close>

theorem no_leads_notice:
  assumes "mode st = ''campaign''"
    and "post (submit_request st) = Resolved d"
    and "get_prop d ''agent_trace'' = Inr t" and "js_iterate t = Inr steps"
    and "list_all typeof_string steps"
    and "js_prop d ''leads'' = JUndefined \<or> js_prop d ''leads'' = JNull \<or> js_prop d ''leads'' = JArr []"
  shows "error (final (handleSubmit post st)) = JNull \<and>
         renderCampaignResults (final (handleSubmit post st)) = Inr NoLeadsNotice \<and>
         render_results tn (final (handleSubmit post st)) = Inr (Campaign NoLeadsNotice) \<and>
         lead_cards NoLeadsNotice = [] \<and>
         (\<forall>s \<in> set (states (handleSubmit post st)).
            trace_panel s = Inr (Some (trace s)) \<and> error s = JNull \<and>
            (render_results tn s = Inr Awaiting \<or>
             render_results tn s = Inr (Campaign NoLeadsNotice)))"
proof -
  from assms(1) have v: "mode st \<noteq> ''single'' \<or> \<not> list_all is_whitespace (domain st)"
    by simp
  from get_prop_iterable_obj [OF assms(3,4)] obtain kvs where d: "d = JObj kvs"
    by auto
  let ?f = "final (handleSubmit post st)"
  let ?r = "JObj (AList.update ''mode'' (JStr ''campaign'') kvs)"
  let ?init = "JStr ''Initializing autonomous intelligence engine...''"
  note h = handleSubmit_done [of st post d t steps, OF v assms(2-4)]
  have r: "result ?f = ?r"
    by (simp add: h final_def d assms(1))
  have e: "error ?f = JNull"
    by (simp add: h final_def submit_reset_def)
  have l: "js_prop ?r ''leads'' = js_prop d ''leads''"
    unfolding d by (simp add: update_conv')
  have m: "js_prop ?r ''mode'' = JStr ''campaign''"
    by (simp add: update_conv')
  have notice: "renderCampaignResults s = Inr NoLeadsNotice" if "result s = ?r" for s
    using assms(6) l that
    by (auto simp add: renderCampaignResults_def get_prop_def nullish_def)
  have shown: "render_results tn s = Inr (Campaign NoLeadsNotice)" if "result s = ?r" for s
    using notice [OF that] m that by (simp add: render_results_def)
  have waiting: "render_results tn s = Inr Awaiting" if "result s = JNull" for s
    using that by (simp add: render_results_def)
  have every: "trace_panel s = Inr (Some (trace s)) \<and> error s = JNull \<and>
            (render_results tn s = Inr Awaiting \<or> render_results tn s = Inr (Campaign NoLeadsNotice))"
    if "s \<in> set (states (handleSubmit post st))" for s
  proof -
    from that have "s = submit_reset st \<or> s \<in> set (append_steps (submit_reset st) steps) \<or>
        s = (submit_reset st)\<lparr>trace := trace (submit_reset st) @ steps, result := ?r\<rparr> \<or>
        s = (submit_reset st)\<lparr>trace := trace (submit_reset st) @ steps, result := ?r, loading := False\<rparr>"
      by (auto simp add: h d assms(1))
    then have "mode s = ''campaign'' \<and> error s = JNull \<and> (result s = JNull \<or> result s = ?r) \<and>
        (\<exists>n. trace s = ?init # take n steps)"
    proof (elim disjE)
      assume "s = submit_reset st"
      then show ?thesis using assms(1) by (auto simp add: submit_reset_def)
    next
      assume "s \<in> set (append_steps (submit_reset st) steps)"
      from append_steps_mem [OF this] obtain n where
        "s = (submit_reset st)\<lparr>trace := trace (submit_reset st) @ take (Suc n) steps\<rparr>"
        by blast
      then show ?thesis using assms(1) by (auto simp add: submit_reset_def)
    next
      assume "s = (submit_reset st)\<lparr>trace := trace (submit_reset st) @ steps, result := ?r\<rparr>"
      then have "mode s = ''campaign'' \<and> error s = JNull \<and> result s = ?r \<and>
          trace s = ?init # take (length steps) steps"
        using assms(1) by (simp add: submit_reset_def)
      then show ?thesis by blast
    next
      assume "s = (submit_reset st)\<lparr>trace := trace (submit_reset st) @ steps, result := ?r, loading := False\<rparr>"
      then have "mode s = ''campaign'' \<and> error s = JNull \<and> result s = ?r \<and>
          trace s = ?init # take (length steps) steps"
        using assms(1) by (simp add: submit_reset_def)
      then show ?thesis by blast
    qed
    then obtain n where ms: "mode s = ''campaign''" and es: "error s = JNull"
      and rs: "result s = JNull \<or> result s = ?r" and ts: "trace s = ?init # take n steps"
      by blast
    from assms(5) have "list_all typeof_string (take n steps)"
      by (auto simp add: list_all_iff dest: in_set_takeD)
    with ts have "list_all typeof_string (trace s)" by simp
    from trace_panel_strings [OF this ms] es rs waiting shown show ?thesis by blast
  qed
  from e notice [OF r] shown [OF r] every show ?thesis by simp
qed

theorem no_leads_notice_witness:
  "mode initial_state = ''campaign'' \<and>
   backend_always (Resolved (JObj [(''leads'', JArr []), (''agent_trace'', JArr [JStr ''Scouting...''])]))
     (submit_request initial_state) =
     Resolved (JObj [(''leads'', JArr []), (''agent_trace'', JArr [JStr ''Scouting...''])]) \<and>
   get_prop (JObj [(''leads'', JArr []), (''agent_trace'', JArr [JStr ''Scouting...''])]) ''agent_trace''
     = Inr (JArr [JStr ''Scouting...'']) \<and>
   js_iterate (JArr [JStr ''Scouting...'']) = Inr [JStr ''Scouting...''] \<and>
   list_all typeof_string [JStr ''Scouting...''] \<and>
   js_prop (JObj [(''leads'', JArr []), (''agent_trace'', JArr [JStr ''Scouting...''])]) ''leads'' = JArr [] \<and>
   error (final (handleSubmit
     (backend_always (Resolved (JObj [(''leads'', JArr []), (''agent_trace'', JArr [JStr ''Scouting...''])])))
     initial_state)) = JNull \<and>
   render_results to_nan (final (handleSubmit
     (backend_always (Resolved (JObj [(''leads'', JArr []), (''agent_trace'', JArr [JStr ''Scouting...''])])))
     initial_state)) = Inr (Campaign NoLeadsNotice) \<and>
   trace_panel (final (handleSubmit
     (backend_always (Resolved (JObj [(''leads'', JArr []), (''agent_trace'', JArr [JStr ''Scouting...''])])))
     initial_state)) =
     Inr (Some [JStr ''Initializing autonomous intelligence engine...'', JStr ''Scouting...''])"
proof -
  let ?d = "JObj [(''leads'', JArr []), (''agent_trace'', JArr [JStr ''Scouting...''])]"
  let ?out = "handleSubmit (backend_always (Resolved ?d)) initial_state"
  have m: "mode initial_state = ''campaign''" by (simp add: initial_state_def)
  have p: "backend_always (Resolved ?d) (submit_request initial_state) = Resolved ?d"
    by (simp only: backend_always_def)
  have g: "get_prop ?d ''agent_trace'' = Inr (JArr [JStr ''Scouting...''])"
    by (simp add: get_prop_def nullish_def)
  have i: "js_iterate (JArr [JStr ''Scouting...'']) = Inr [JStr ''Scouting...'']" by simp
  have s: "list_all typeof_string [JStr ''Scouting...'']" by simp
  have l: "js_prop ?d ''leads'' = JArr []" by simp
  from l have l': "js_prop ?d ''leads'' = JUndefined \<or> js_prop ?d ''leads'' = JNull \<or> js_prop ?d ''leads'' = JArr []"
    by blast
  have "states ?out \<noteq> []"
    by (simp add: handleSubmit_def Let_def split: prod.splits)
  then have f: "final ?out \<in> set (states ?out)"
    by (simp add: final_def)
  have t: "trace (final ?out) =
      [JStr ''Initializing autonomous intelligence engine...'', JStr ''Scouting...'']"
    by (simp add: handleSubmit_def initial_state_def backend_always_def submit_reset_def
          get_prop_def nullish_def final_def Let_def)
  note n = no_leads_notice [of initial_state "backend_always (Resolved ?d)" ?d _ _ to_nan, OF m p g i s l']
  from n have "error (final ?out) = JNull"
    and "render_results to_nan (final ?out) = Inr (Campaign NoLeadsNotice)"
    by blast+
  moreover from n f have "trace_panel (final ?out) = Inr (Some (trace (final ?out)))"
    by blast
  then have "trace_panel (final ?out) =
      Inr (Some [JStr ''Initializing autonomous intelligence engine...'', JStr ''Scouting...''])"
    by (simp only: t)
  ultimately show ?thesis using m p g i s l by blast
qed

section \<open>The verdict of a deep analysis\<close>



section \<open>The blocklist and the leads of the pipeline\<close>

lemma guard_drops_blocklisted:
  "c \<in> set (enterprise_guard cfg cs) \<Longrightarrow> cand_domain c \<notin> set (blocklist cfg)"
  by (auto simp add: enterprise_guard_def is_enterprise_def split: if_splits)

lemma synthesizer_domains:
  "l \<in> set (lead_synthesizer llm k category cs) \<Longrightarrow> lead_domain l \<in> cand_domain ` set cs"
  by (auto simp add: lead_synthesizer_def Let_def split: option.splits dest: in_set_takeD)

text \<open>
  Claim C1. Whatever the search returns and the language model answers, a domain that is
  an entry of the blocklist is the domain of no candidate handed to LeadSynthesizer, and
  of no lead in the output of the campaign pipeline.
\<close>

theorem blocklisted_domain_never_in_leads:
  assumes "d \<in> set (blocklist cfg)"
  shows "(\<forall>c \<in> set (synthesizer_input cfg domain_of hits). cand_domain c \<noteq> d) \<and>
         (\<forall>leads. run_campaign cfg build_query search domain_of llm k category = Inr leads \<longrightarrow>
            (\<forall>l \<in> set leads. lead_domain l \<noteq> d))"
proof -
  have g: "cand_domain c \<noteq> d" if "c \<in> set (synthesizer_input cfg domain_of hs)" for c hs
    using that assms guard_drops_blocklisted [of c cfg "result_normalizer domain_of hs"]
    by (auto simp add: synthesizer_input_def)
  have "lead_domain l \<noteq> d"
    if "run_campaign cfg build_query search domain_of llm k category = Inr leads" and "l \<in> set leads"
    for leads l
  proof -
    from that obtain hs where
      "l \<in> set (lead_synthesizer llm k category (synthesizer_input cfg domain_of hs))"
      by (auto simp add: run_campaign_def Let_def split: if_splits option.splits)
    from synthesizer_domains [OF this] obtain c where
      "c \<in> set (synthesizer_input cfg domain_of hs)" and "lead_domain l = cand_domain c"
      by blast
    with g [of c hs] show ?thesis by simp
  qed
  with g show ?thesis by blast
qed

theorem blocklisted_domain_never_in_leads_witness:
  "''bigcorp.com'' \<in> set (blocklist scenario_guard) \<and>
   run_campaign scenario_guard id scenario_search scenario_domain_of scenario_llm 5 ''Cloud & DevOps'' =
     Inr [\<lparr>lead_name = ''Tiny DevOps'', lead_domain = ''tinydevops.io'',
            lead_why_we_help = ''A small team that runs its own cluster.''\<rparr>] \<and>
   lead_domain \<lparr>lead_name = ''Tiny DevOps'', lead_domain = ''tinydevops.io'',
            lead_why_we_help = ''A small team that runs its own cluster.''\<rparr> \<noteq> ''bigcorp.com''"
proof -
  let ?l = "\<lparr>lead_name = ''Tiny DevOps'', lead_domain = ''tinydevops.io'',
            lead_why_we_help = ''A small team that runs its own cluster.''\<rparr>"
  have b: "''bigcorp.com'' \<in> set (blocklist scenario_guard)"
    by (simp add: scenario_guard_def)
  have r: "run_campaign scenario_guard id scenario_search scenario_domain_of scenario_llm 5 ''Cloud & DevOps'' = Inr [?l]"
    by (simp add: run_campaign_def SERVICE_CATEGORIES_def scenario_search_def synthesizer_input_def
          result_normalizer_def scenario_domain_of_def enterprise_guard_def is_enterprise_def
          scenario_guard_def lead_synthesizer_def scenario_llm_def Let_def)
  from blocklisted_domain_never_in_leads [OF b, of scenario_domain_of _ id scenario_search scenario_llm 5 "''Cloud & DevOps''"] r
  have "lead_domain ?l \<noteq> ''bigcorp.com''"
    by (metis list.set_intros(1))
  with b r show ?thesis by blast
qed

end
